theory Spec2Isabelle
  imports Complex_Main "HOL-Library.Multiset"
begin

section \<open>Python values used by the password checker\<close>

text \<open>
  A Python \<open>str\<close> is a sequence of Unicode code points and \<open>len\<close> counts code points, so a
  password is a list of code points. \<open>str\<close> turns an ASCII literal into such a list.
\<close>

type_synonym pystr = "nat list"

definition str :: "string \<Rightarrow> pystr" where
  "str s = map of_char s"

text \<open>The exceptions the modelled code can raise.\<close>

datatype py_error = OverflowError | ValueError | IndexError

subsection \<open>\<open>str.lower\<close>\<close>

text \<open>
  \<open>password.lower()\<close>. On a string of ASCII characters \<open>str.lower\<close> maps \<open>A\<close>..\<open>Z\<close> to
  \<open>a\<close>..\<open>z\<close> and keeps every other character. On a string with a character outside ASCII it
  applies the lower-case mapping of the interpreter's Unicode database, which is not part of
  the program: it is the parameter \<open>L\<close>, and every result below holds for every \<open>L\<close>.
\<close>

definition ascii_lower_char :: "nat \<Rightarrow> nat" where
  "ascii_lower_char c = (if 65 \<le> c \<and> c \<le> 90 then c + 32 else c)"

definition is_ascii :: "pystr \<Rightarrow> bool" where
  "is_ascii s = list_all (\<lambda>c. c < 128) s"

definition str_lower :: "(pystr \<Rightarrow> pystr) \<Rightarrow> pystr \<Rightarrow> pystr" where
  "str_lower L s = (if is_ascii s then map ascii_lower_char s else L s)"

subsection \<open>\<open>re.search\<close> with a one-character pattern\<close>

text \<open>
  Each pattern of the program is a single character class, and \<open>re.search\<close> succeeds when
  some character of the string is in the class. The classes are
  \<^item> \<open>[A-Z]\<close> and \<open>[a-z]\<close>: the ASCII ranges;
  \<^item> \<open>\d\<close>: for a \<open>str\<close> pattern with no flag, every Unicode decimal digit (category Nd); the
    table lists the blocks of Unicode 14.0.0 as inclusive ranges of code points;
  \<^item> the bracket expression of punctuation: the thirty characters
    \<open>! @ # $ % ^ & * ( ) _ + - = [ ] { } ; ' : " \ | , . < > / ?\<close>.
\<close>

definition re_search :: "(nat \<Rightarrow> bool) \<Rightarrow> pystr \<Rightarrow> bool" where
  "re_search cls s = list_ex cls s"

definition class_upper :: "nat \<Rightarrow> bool" where
  "class_upper c = (65 \<le> c \<and> c \<le> 90)"

definition class_lower :: "nat \<Rightarrow> bool" where
  "class_lower c = (97 \<le> c \<and> c \<le> 122)"

definition unicode_Nd :: "(nat \<times> nat) list" where
  "unicode_Nd =
    [(48, 57), (1632, 1641), (1776, 1785), (1984, 1993), (2406, 2415), (2534, 2543),
     (2662, 2671), (2790, 2799), (2918, 2927), (3046, 3055), (3174, 3183), (3302, 3311),
     (3430, 3439), (3558, 3567), (3664, 3673), (3792, 3801), (3872, 3881), (4160, 4169),
     (4240, 4249), (6112, 6121), (6160, 6169), (6470, 6479), (6608, 6617), (6784, 6793),
     (6800, 6809), (6992, 7001), (7088, 7097), (7232, 7241), (7248, 7257), (42528, 42537),
     (43216, 43225), (43264, 43273), (43472, 43481), (43504, 43513), (43600, 43609),
     (44016, 44025), (65296, 65305), (66720, 66729), (68912, 68921), (69734, 69743),
     (69872, 69881), (69942, 69951), (70096, 70105), (70384, 70393), (70736, 70745),
     (70864, 70873), (71248, 71257), (71360, 71369), (71472, 71481), (71904, 71913),
     (72016, 72025), (72784, 72793), (73040, 73049), (73120, 73129), (92768, 92777),
     (92864, 92873), (93008, 93017), (120782, 120831), (123200, 123209), (123632, 123641),
     (125264, 125273), (130032, 130041)]"

definition class_digit :: "nat \<Rightarrow> bool" where
  "class_digit c = list_ex (\<lambda>(lo, hi). lo \<le> c \<and> c \<le> hi) unicode_Nd"

definition special_class_chars :: pystr where
  "special_class_chars =
     str ''!@#$%^&*()_+-=[]{};'' @ [39] @ str '':'' @ [34, 92] @ str ''|,.<>/?''"

definition class_special :: "nat \<Rightarrow> bool" where
  "class_special c = (c \<in> set special_class_chars)"

section \<open>The common-password set\<close>

text \<open>The set literal of \<open>_load_common_passwords\<close>, entry by entry (repeats included).\<close>

definition load_common_passwords :: "pystr set" where
  "load_common_passwords = set (map str
    [''123456'', ''password'', ''123456789'', ''12345678'', ''12345'', ''qwerty'', ''abc123'',
     ''111111'', ''1234567'', ''123123'', ''admin'', ''letmein'', ''welcome'', ''monkey'',
     ''password123'', ''1234567890'', ''dragon'', ''master'', ''hello'', ''freedom'',
     ''whatever'', ''qazwsx'', ''trustno1'', ''jordan'', ''harley'', ''hunter'', ''buster'',
     ''thomas'', ''tigger'', ''robert'', ''soccer'', ''batman'', ''test'', ''pass'', ''killer'',
     ''hunter'', ''mike'', ''charlie'', ''andrew'', ''matthew'', ''access'', ''shadow'',
     ''michael'', ''jessica'', ''diamond'', ''jordan'', ''mustang'', ''mickey'', ''secret'',
     ''dallas'', ''dennis'', ''ginger'', ''striker'', ''hammer'', ''silver'', ''joseph'',
     ''blowme'', ''spitfire'', ''green'', ''superman'', ''bigdaddy'', ''johnson'', ''chester'',
     ''london'', ''midnight'', ''blue'', ''fishing'', ''david'', ''maddog'', ''eagles'',
     ''mackenzie'', ''donna'', ''murphy'', ''frank'', ''green'', ''lucky'', ''andrew'',
     ''charlie'', ''michael'', ''sarah'', ''jessica'', ''jordan'', ''tiger'', ''hunter'',
     ''michelle'', ''chris'', ''jessica'', ''amanda'', ''daniel'', ''joshua'', ''michael'',
     ''jennifer'', ''thomas'', ''jessica'', ''amanda'', ''daniel'', ''joshua'', ''michael'',
     ''jennifer'', ''thomas'', ''jessica'', ''amanda'', ''daniel'', ''joshua'', ''michael''])"

definition common_passwords :: "pystr set" where
  "common_passwords = load_common_passwords"

section \<open>Entropy and crack time\<close>

text \<open>
  Python floats are modelled by real numbers. \<open>math.log2\<close> raises \<open>ValueError\<close> on an argument
  that is not positive; it accepts integers of any size.
\<close>

definition math_log2 :: "nat \<Rightarrow> py_error + real" where
  "math_log2 x = (if x = 0 then Inl ValueError else Inr (log 2 (real x)))"

definition charset_size :: "pystr \<Rightarrow> nat" where
  "charset_size password =
    (let charset_size = 0;
         charset_size = (if re_search class_lower password then charset_size + 26 else charset_size);
         charset_size = (if re_search class_upper password then charset_size + 26 else charset_size);
         charset_size = (if re_search class_digit password then charset_size + 10 else charset_size);
         charset_size = (if re_search class_special password then charset_size + 32 else charset_size)
     in charset_size)"

definition calculate_entropy :: "pystr \<Rightarrow> py_error + real" where
  "calculate_entropy password =
    (if password = [] then Inr 0
     else if charset_size password = 0 then Inr 0
     else math_log2 (charset_size password ^ length password))"

text \<open>
  \<open>2 ** y\<close> for a float \<open>y\<close>: the power of two as a double. Python raises \<open>OverflowError\<close> when
  the result is beyond the largest finite double, which is the case exactly from \<open>y = 1024\<close> on.
\<close>

definition pow2_float :: "real \<Rightarrow> py_error + real" where
  "pow2_float y = (if 1024 \<le> y then Inl OverflowError else Inr (2 powr y))"

text \<open>
  The result of \<open>_estimate_crack_time\<close> is one of seven texts. The five that print a number
  carry the number that the format \<open>.1f\<close> renders with one decimal place.
\<close>

datatype crack_estimate =
    Instant
  | Less_than_1_second
  | Seconds real
  | Minutes real
  | Hours real
  | Days real
  | Years real

definition estimate_crack_time :: "real \<Rightarrow> py_error + crack_estimate" where
  "estimate_crack_time entropy =
    (if entropy \<le> 0 then Inr Instant
     else
       let attempts_per_second = 1000000000 in
       case pow2_float (entropy - 1) of
         Inl e \<Rightarrow> Inl e
       | Inr total_attempts \<Rightarrow>
           let seconds = total_attempts / attempts_per_second in
           if seconds < 1 then Inr Less_than_1_second
           else if seconds < 60 then Inr (Seconds seconds)
           else if seconds < 3600 then (let minutes = seconds / 60 in Inr (Minutes minutes))
           else if seconds < 86400 then (let hours = seconds / 3600 in Inr (Hours hours))
           else if seconds < 31536000 then (let days = seconds / 86400 in Inr (Days days))
           else (let years = seconds / 31536000 in Inr (Years years)))"

section \<open>Strength evaluation\<close>

text \<open>
  Lines 48 to 89: the score and the two message lists, updated statement by statement.
  The state is the triple \<open>(score, issues, recommendations)\<close>.
\<close>

type_synonym tally = "int \<times> string list \<times> string list"

definition length_check :: "pystr \<Rightarrow> tally \<Rightarrow> tally" where
  "length_check password t =
    (case t of (score, issues, recommendations) \<Rightarrow>
      if length password < 8 then
        (score,
         issues @ [''Password is too short (minimum 8 characters)''],
         recommendations @ [''Increase password length to at least 8 characters''])
      else if length password \<ge> 12 then (score + 2, issues, recommendations)
      else (score + 1, issues, recommendations))"

definition variety_check :: "bool \<Rightarrow> string \<Rightarrow> string \<Rightarrow> tally \<Rightarrow> tally" where
  "variety_check has issue recommendation t =
    (case t of (score, issues, recommendations) \<Rightarrow>
      if has then (score + 1, issues, recommendations)
      else (score, issues @ [issue], recommendations @ [recommendation]))"

definition score_password :: "pystr \<Rightarrow> tally" where
  "score_password password =
    (let t = (0, [], []);
         t = length_check password t;
         has_upper = re_search class_upper password;
         has_lower = re_search class_lower password;
         has_digit = re_search class_digit password;
         has_special = re_search class_special password;
         t = variety_check has_upper ''No uppercase letters'' ''Add uppercase letters (A-Z)'' t;
         t = variety_check has_lower ''No lowercase letters'' ''Add lowercase letters (a-z)'' t;
         t = variety_check has_digit ''No numbers'' ''Add numbers (0-9)'' t;
         t = variety_check has_special ''No special characters''
               ''Add special characters (!@#$%^&*...)'' t
     in t)"

definition strength_of_score :: "int \<Rightarrow> string" where
  "strength_of_score score =
    (if score \<le> 2 then ''Weak'' else if score \<le> 4 then ''Moderate'' else ''Strong'')"

text \<open>
  The result dictionary of \<open>check_password_strength\<close>. The two early returns leave keys
  out; an absent key is \<open>None\<close>. The nested dictionary \<open>checks\<close> is kept as a list of its items.
\<close>

record report =
  strength :: string
  score :: int
  entropy :: "real option"
  crack_time :: "crack_estimate option"
  issues :: "string list"
  recommendations :: "string list option"
  checks :: "(string \<times> bool) list option"

definition check_password_strength :: "(pystr \<Rightarrow> pystr) \<Rightarrow> pystr \<Rightarrow> py_error + report" where
  "check_password_strength L password =
    (if password = [] then
       Inr \<lparr>strength = ''Weak'', score = 0, entropy = None, crack_time = None,
            issues = [''Password is empty''], recommendations = None, checks = None\<rparr>
     else if str_lower L password \<in> common_passwords then
       Inr \<lparr>strength = ''Very Weak'', score = 0, entropy = None, crack_time = None,
            issues = [''Password is in the top 1000 common passwords list''],
            recommendations = Some [''Choose a unique password that's not commonly used''],
            checks = None\<rparr>
     else
       let (score, issues, recommendations) = score_password password in
       (case calculate_entropy password of
          Inl e \<Rightarrow> Inl e
        | Inr entropy' \<Rightarrow>
           (case estimate_crack_time entropy' of
              Inl e \<Rightarrow> Inl e
            | Inr crack_time' \<Rightarrow>
                Inr \<lparr>strength = strength_of_score score, score = score,
                     entropy = Some entropy', crack_time = Some crack_time', issues = issues,
                     recommendations = Some recommendations,
                     checks = Some
                       [(''length'', length password \<ge> 8),
                        (''uppercase'', re_search class_upper password),
                        (''lowercase'', re_search class_lower password),
                        (''numbers'', re_search class_digit password),
                        (''special'', re_search class_special password)]\<rparr>)))"

section \<open>Password generation\<close>

text \<open>
  The module \<open>random\<close> keeps a generator state. The state is modelled by the sequence of the
  raw numbers the generator will deliver, so that a result for every such sequence is a result
  for every outcome of the random source. \<open>_randbelow n\<close> (for \<open>n > 0\<close>) consumes one raw number
  and returns an index below \<open>n\<close>; \<open>random.choice\<close> raises \<open>IndexError\<close> on an empty sequence;
  \<open>random.shuffle\<close> walks the indices from the last down to 1 and swaps each with an index
  drawn at or below it.
\<close>

type_synonym rng = "nat \<Rightarrow> nat"

definition randbelow :: "nat \<Rightarrow> rng \<Rightarrow> nat \<times> rng" where
  "randbelow n g = (g 0 mod n, \<lambda>k. g (Suc k))"

definition choice :: "pystr \<Rightarrow> rng \<Rightarrow> py_error + (nat \<times> rng)" where
  "choice seq g =
    (if seq = [] then Inl IndexError
     else let (i, g') = randbelow (length seq) g in Inr (seq ! i, g'))"

fun shuffle_from :: "nat \<Rightarrow> pystr \<Rightarrow> rng \<Rightarrow> pystr \<times> rng" where
  "shuffle_from 0 x g = (x, g)"
| "shuffle_from (Suc i) x g =
    (let (j, g') = randbelow (Suc i + 1) g
     in shuffle_from i (x[Suc i := x ! j, j := x ! Suc i]) g')"

definition shuffle :: "pystr \<Rightarrow> rng \<Rightarrow> pystr \<times> rng" where
  "shuffle x g = shuffle_from (length x - 1) x g"

text \<open>\<open>s.replace(c, '')\<close> for a one-character \<open>c\<close>: every occurrence is removed.\<close>

definition replace_empty :: "pystr \<Rightarrow> nat \<Rightarrow> pystr" where
  "replace_empty s c = filter (\<lambda>x. x \<noteq> c) s"

definition ascii_lowercase :: pystr where
  "ascii_lowercase = str ''abcdefghijklmnopqrstuvwxyz''"

definition ascii_uppercase :: pystr where
  "ascii_uppercase = str ''ABCDEFGHIJKLMNOPQRSTUVWXYZ''"

definition digits :: pystr where
  "digits = str ''0123456789''"

definition generator_special :: pystr where
  "generator_special = str ''!@#$%^&*()_+-=[]{}|;:,.<>?''"

text \<open>The loop \<open>for _ in range(length - 4): password.append(random.choice(all_chars))\<close>.\<close>

fun fill :: "nat \<Rightarrow> pystr \<Rightarrow> pystr \<Rightarrow> rng \<Rightarrow> py_error + (pystr \<times> rng)" where
  "fill 0 all_chars password g = Inr (password, g)"
| "fill (Suc k) all_chars password g =
    (case choice all_chars g of
       Inl e \<Rightarrow> Inl e
     | Inr (c, g') \<Rightarrow> fill k all_chars (password @ [c]) g')"

text \<open>
  Lines 174 to 184: the four character sets, reduced when similar-looking characters are
  excluded.
\<close>

definition character_sets :: "bool \<Rightarrow> pystr \<times> pystr \<times> pystr \<times> pystr" where
  "character_sets exclude_similar =
    (let lowercase = ascii_lowercase;
         uppercase = ascii_uppercase;
         digits1 = digits;
         special = generator_special;
         lowercase = (if exclude_similar
                      then replace_empty (replace_empty lowercase (of_char CHR ''l'')) (of_char CHR ''i'')
                      else lowercase);
         uppercase = (if exclude_similar
                      then replace_empty (replace_empty uppercase (of_char CHR ''I'')) (of_char CHR ''O'')
                      else uppercase);
         digits1 = (if exclude_similar
                    then replace_empty (replace_empty digits1 (of_char CHR ''0'')) (of_char CHR ''1'')
                    else digits1);
         special = (if exclude_similar
                    then replace_empty (replace_empty special (of_char CHR ''|'')) (of_char CHR ''I'')
                    else special)
     in (lowercase, uppercase, digits1, special))"

definition generate_strong_password ::
    "int \<Rightarrow> bool \<Rightarrow> rng \<Rightarrow> py_error + (pystr \<times> rng)" where
  "generate_strong_password length0 exclude_similar g =
    (let length1 = (if length0 < 8 then 8 else length0);
         (lowercase, uppercase, digits1, special) = character_sets exclude_similar
     in
     (case choice lowercase g of Inl e \<Rightarrow> Inl e | Inr (c1, g1) \<Rightarrow>
     (case choice uppercase g1 of Inl e \<Rightarrow> Inl e | Inr (c2, g2) \<Rightarrow>
     (case choice digits1 g2 of Inl e \<Rightarrow> Inl e | Inr (c3, g3) \<Rightarrow>
     (case choice special g3 of Inl e \<Rightarrow> Inl e | Inr (c4, g4) \<Rightarrow>
       (let password = [c1, c2, c3, c4];
            all_chars = lowercase @ uppercase @ digits1 @ special
        in (case fill (nat (length1 - 4)) all_chars password g4 of
              Inl e \<Rightarrow> Inl e
            | Inr (password, g5) \<Rightarrow> Inr (shuffle password g5))))))))"

section \<open>Facts about the character classes and the entropy\<close>

lemma re_search_iff: "re_search cls s \<longleftrightarrow> (\<exists>c\<in>set s. cls c)"
  by (simp add: re_search_def list_ex_iff)

lemma charset_size_sum:
  "charset_size password =
     (if re_search class_lower password then 26 else 0)
   + (if re_search class_upper password then 26 else 0)
   + (if re_search class_digit password then 10 else 0)
   + (if re_search class_special password then 32 else 0)"
  by (simp add: charset_size_def)

lemma calculate_entropy_value:
  "calculate_entropy password =
     Inr (if charset_size password = 0 then 0
          else real (length password) * log 2 (real (charset_size password)))"
proof (cases "password = [] \<or> charset_size password = 0")
  case True
  then show ?thesis
    by (auto simp: calculate_entropy_def re_search_def charset_size_sum)
next
  case False
  then have "charset_size password ^ length password \<noteq> 0" by simp
  with False show ?thesis
    by (simp add: calculate_entropy_def math_log2_def log_nat_power)
qed

section \<open>Facts about the random choices\<close>

lemma randbelow_less: "0 < n \<Longrightarrow> fst (randbelow n g) < n"
  by (simp add: randbelow_def)

lemma choice_member:
  assumes "seq \<noteq> []"
  shows "\<exists>c g'. choice seq g = Inr (c, g') \<and> c \<in> set seq"
  using assms by (simp add: choice_def randbelow_def)

lemma fill_result:
  assumes "all_chars \<noteq> []"
  shows "\<exists>pw g'. fill k all_chars password g = Inr (pw, g')
           \<and> length pw = length password + k
           \<and> set password \<subseteq> set pw
           \<and> set pw \<subseteq> set password \<union> set all_chars"
proof (induction k arbitrary: password g)
  case 0
  show ?case by simp
next
  case (Suc k)
  obtain c g1 where c: "choice all_chars g = Inr (c, g1)" "c \<in> set all_chars"
    using choice_member [OF assms] by blast
  obtain pw g' where r: "fill k all_chars (password @ [c]) g1 = Inr (pw, g')"
      "length pw = length (password @ [c]) + k"
      "set (password @ [c]) \<subseteq> set pw"
      "set pw \<subseteq> set (password @ [c]) \<union> set all_chars"
    using Suc.IH [of "password @ [c]" g1] by blast
  from c r show ?case by auto
qed

lemma shuffle_from_mset:
  "i < length x \<Longrightarrow> mset (fst (shuffle_from i x g)) = mset x"
proof (induction i arbitrary: x g)
  case 0
  show ?case by simp
next
  case (Suc i)
  let ?j = "fst (randbelow (Suc i + 1) g)"
  let ?g = "snd (randbelow (Suc i + 1) g)"
  let ?x = "x[Suc i := x ! ?j, ?j := x ! Suc i]"
  have j: "?j < length x"
    using randbelow_less [of "Suc i + 1" g] Suc.prems by simp
  have "mset ?x = mset x"
    using j Suc.prems by (simp add: mset_swap)
  moreover have "mset (fst (shuffle_from i ?x ?g)) = mset ?x"
    using Suc.prems by (intro Suc.IH) simp
  ultimately show ?case
    by (simp add: case_prod_beta Let_def)
qed

lemma shuffle_mset: "mset (fst (shuffle x g)) = mset x"
  by (cases x) (simp_all add: shuffle_def shuffle_from_mset)

lemma character_sets_classes:
  assumes "character_sets ex = (lo, up, di, sp)"
  shows "lo \<noteq> [] \<and> up \<noteq> [] \<and> di \<noteq> [] \<and> sp \<noteq> []"
    and "list_all class_lower lo"
    and "list_all class_upper up"
    and "list_all (\<lambda>c. 48 \<le> c \<and> c \<le> 57) di"
    and "list_all (\<lambda>c. c \<in> set generator_special) sp"
  using assms
  by (cases ex; auto simp: character_sets_def ascii_lowercase_def ascii_uppercase_def
        digits_def generator_special_def replace_empty_def str_def class_lower_def
        class_upper_def)+

lemma character_sets_exclude_similar:
  assumes "character_sets True = (lo, up, di, sp)"
  shows "set (lo @ up @ di @ sp) \<inter> set (str ''liIO01|'') = {}"
  using assms
  by (auto simp: character_sets_def ascii_lowercase_def ascii_uppercase_def
        digits_def generator_special_def replace_empty_def str_def)

lemma generate_strong_password_result:
  assumes cs: "character_sets ex = (lo, up, di, sp)"
  shows "\<exists>pw g' c1 c2 c3 c4.
           generate_strong_password n ex g = Inr (pw, g')
         \<and> length pw = nat (max n 8)
         \<and> c1 \<in> set lo \<and> c2 \<in> set up \<and> c3 \<in> set di \<and> c4 \<in> set sp
         \<and> {c1, c2, c3, c4} \<subseteq> set pw
         \<and> set pw \<subseteq> set (lo @ up @ di @ sp)"
proof -
  note ne = character_sets_classes(1) [OF cs]
  let ?k = "nat ((if n < 8 then 8 else n) - 4)"
  obtain c1 g1 where c1: "choice lo g = Inr (c1, g1)" "c1 \<in> set lo"
    using choice_member [of lo g] ne by blast
  obtain c2 g2 where c2: "choice up g1 = Inr (c2, g2)" "c2 \<in> set up"
    using choice_member [of up g1] ne by blast
  obtain c3 g3 where c3: "choice di g2 = Inr (c3, g3)" "c3 \<in> set di"
    using choice_member [of di g2] ne by blast
  obtain c4 g4 where c4: "choice sp g3 = Inr (c4, g4)" "c4 \<in> set sp"
    using choice_member [of sp g3] ne by blast
  have "lo @ up @ di @ sp \<noteq> []" using ne by simp
  then obtain pw g5 where f: "fill ?k (lo @ up @ di @ sp) [c1, c2, c3, c4] g4 = Inr (pw, g5)"
      "length pw = length [c1, c2, c3, c4] + ?k"
      "set [c1, c2, c3, c4] \<subseteq> set pw"
      "set pw \<subseteq> set [c1, c2, c3, c4] \<union> set (lo @ up @ di @ sp)"
    using fill_result [of "lo @ up @ di @ sp" ?k "[c1, c2, c3, c4]" g4] by blast
  obtain pw' g6 where s: "shuffle pw g5 = (pw', g6)" by (cases "shuffle pw g5")
  have m: "mset pw' = mset pw" using shuffle_mset [of pw g5] s by simp
  have g: "generate_strong_password n ex g = Inr (pw', g6)"
    by (simp add: generate_strong_password_def cs c1 c2 c3 c4 f s)
  have "4 + ?k = nat (max n 8)" by (cases "n < 8") simp_all
  then have len: "length pw' = nat (max n 8)"
    using mset_eq_length [OF m] f(2) by simp
  have eq: "set pw' = set pw" using mset_eq_setD [OF m] .
  have mem: "{c1, c2, c3, c4} \<subseteq> set pw'"
    using f(3) eq by simp
  have sub: "set pw' \<subseteq> set (lo @ up @ di @ sp)"
    using f(4) eq c1(2) c2(2) c3(2) c4(2) by auto
  show ?thesis
    using g len c1(2) c2(2) c3(2) c4(2) mem sub by blast
qed

section \<open>Facts about the common passwords and the overflow of the crack time\<close>

lemma common_passwords_chars:
  "\<forall>w\<in>common_passwords. w \<noteq> [] \<and> list_all (\<lambda>c. class_lower c \<or> (48 \<le> c \<and> c \<le> 57)) w"
  by (simp add: common_passwords_def load_common_passwords_def str_def class_lower_def)

lemma class_special_not_alnum:
  assumes "class_special c"
  shows "\<not> class_lower c" and "\<not> class_upper c" and "\<not> (48 \<le> c \<and> c \<le> 57)" and "c < 128"
  using assms
  by (auto simp: class_special_def special_class_chars_def str_def class_lower_def class_upper_def)

lemma str_lower_empty: "str_lower L [] = []"
  by (simp add: str_lower_def is_ascii_def)

lemma not_common_if_special:
  assumes "is_ascii password" and "re_search class_special password"
  shows "str_lower L password \<notin> common_passwords"
proof
  assume in_set: "str_lower L password \<in> common_passwords"
  obtain c where c: "c \<in> set password" "class_special c"
    using assms(2) by (auto simp: re_search_iff)
  have "ascii_lower_char c = c"
    using class_special_not_alnum(2) [OF c(2)] by (simp add: ascii_lower_char_def class_upper_def)
  then have "c \<in> set (str_lower L password)"
    using c(1) assms(1) by (force simp: str_lower_def)
  moreover have "list_all (\<lambda>c. class_lower c \<or> (48 \<le> c \<and> c \<le> 57)) (str_lower L password)"
    using common_passwords_chars in_set by blast
  ultimately have "class_lower c \<or> (48 \<le> c \<and> c \<le> 57)"
    by (simp add: list_all_iff)
  then show False
    using class_special_not_alnum(1,3) [OF c(2)] by blast
qed

lemma class_digit_ascii: "48 \<le> c \<Longrightarrow> c \<le> 57 \<Longrightarrow> class_digit c"
  by (simp add: class_digit_def unicode_Nd_def)

lemma estimate_crack_time_overflow_iff:
  "estimate_crack_time e = Inl OverflowError \<longleftrightarrow> 1025 \<le> e"
  by (auto simp: estimate_crack_time_def pow2_float_def Let_def)

lemma estimate_crack_time_cases:
  "(\<exists>t. estimate_crack_time e = Inr t) \<or> estimate_crack_time e = Inl OverflowError"
  by (auto simp: estimate_crack_time_def pow2_float_def Let_def)

lemma entropy_overflow_iff:
  "1025 \<le> (if charset_size password = 0 then 0
            else real (length password) * log 2 (real (charset_size password)))
   \<longleftrightarrow> 2 ^ 1025 \<le> charset_size password ^ length password"
proof (cases "charset_size password = 0")
  case True
  then show ?thesis by (simp add: power_0_left)
next
  case False
  then have pos: "0 < real (charset_size password ^ length password)" by simp
  have "real (length password) * log 2 (real (charset_size password))
        = log 2 (real (charset_size password ^ length password))"
    by (simp add: log_nat_power)
  moreover have "(1025 \<le> log 2 (real (charset_size password ^ length password)))
        \<longleftrightarrow> (2 powr 1025 \<le> real (charset_size password ^ length password))"
    using pos by (subst le_log_iff) simp_all
  moreover have "(2::real) powr 1025 = real ((2::nat) ^ 1025)" by simp
  ultimately show ?thesis using False
    by (simp only: of_nat_le_iff if_False)
qed

section \<open>The scoring path of the evaluation\<close>

lemmas class_defs = re_search_def class_upper_def class_lower_def class_digit_def
  class_special_def unicode_Nd_def special_class_chars_def str_def

lemma score_password_value:
  "score_password password =
    ((if 12 \<le> length password then 2 else if 8 \<le> length password then 1 else 0)
       + (if re_search class_upper password then 1 else 0)
       + (if re_search class_lower password then 1 else 0)
       + (if re_search class_digit password then 1 else 0)
       + (if re_search class_special password then 1 else 0),
     (if length password < 8 then [''Password is too short (minimum 8 characters)''] else [])
       @ (if re_search class_upper password then [] else [''No uppercase letters''])
       @ (if re_search class_lower password then [] else [''No lowercase letters''])
       @ (if re_search class_digit password then [] else [''No numbers''])
       @ (if re_search class_special password then [] else [''No special characters'']),
     (if length password < 8 then [''Increase password length to at least 8 characters''] else [])
       @ (if re_search class_upper password then [] else [''Add uppercase letters (A-Z)''])
       @ (if re_search class_lower password then [] else [''Add lowercase letters (a-z)''])
       @ (if re_search class_digit password then [] else [''Add numbers (0-9)''])
       @ (if re_search class_special password then [] else [''Add special characters (!@#$%^&*...)'']))"
  by (simp add: score_password_def length_check_def variety_check_def)

lemma score_password_le: "fst (score_password password) \<le> 6"
  by (simp add: score_password_value)

lemma check_password_strength_scoring:
  assumes "password \<noteq> []" and "str_lower L password \<notin> common_passwords"
  shows "if 2 ^ 1025 \<le> charset_size password ^ length password
         then check_password_strength L password = Inl OverflowError
         else \<exists>r. check_password_strength L password = Inr r
                \<and> score r = fst (score_password password)
                \<and> issues r = fst (snd (score_password password))
                \<and> recommendations r = Some (snd (snd (score_password password)))
                \<and> strength r = strength_of_score (score r)
                \<and> entropy r = Some (if charset_size password = 0 then 0
                       else real (length password) * log 2 (real (charset_size password)))
                \<and> crack_time r \<noteq> None
                \<and> checks r = Some
                       [(''length'', length password \<ge> 8),
                        (''uppercase'', re_search class_upper password),
                        (''lowercase'', re_search class_lower password),
                        (''numbers'', re_search class_digit password),
                        (''special'', re_search class_special password)]"
proof -
  let ?e = "if charset_size password = 0 then 0
            else real (length password) * log 2 (real (charset_size password))"
  obtain s i r where sp: "score_password password = (s, i, r)"
    by (cases "score_password password")
  have ov: "estimate_crack_time ?e = Inl OverflowError
            \<longleftrightarrow> 2 ^ 1025 \<le> charset_size password ^ length password"
    using estimate_crack_time_overflow_iff [of ?e] entropy_overflow_iff [of password] by simp
  show ?thesis
  proof (cases "2 ^ 1025 \<le> charset_size password ^ length password")
    case True
    then have "estimate_crack_time ?e = Inl OverflowError" using ov by simp
    then show ?thesis
      using True assms by (simp add: check_password_strength_def calculate_entropy_value sp)
  next
    case False
    then obtain t where "estimate_crack_time ?e = Inr t"
      using ov estimate_crack_time_cases [of ?e] by blast
    then show ?thesis
      using False assms by (simp add: check_password_strength_def calculate_entropy_value sp)
  qed
qed

lemma check_password_strength_common:
  assumes "str_lower L password \<in> common_passwords"
  shows "check_password_strength L password =
    Inr \<lparr>strength = ''Very Weak'', score = 0, entropy = None, crack_time = None,
         issues = [''Password is in the top 1000 common passwords list''],
         recommendations = Some [''Choose a unique password that's not commonly used''],
         checks = None\<rparr>"
proof -
  have "password \<noteq> []"
    using assms common_passwords_chars by (auto simp: str_lower_empty)
  then show ?thesis using assms by (simp add: check_password_strength_def)
qed

lemmas lower_defs = str_lower_def is_ascii_def ascii_lower_char_def str_def
  common_passwords_def load_common_passwords_def

section \<open>Generated passwords under the evaluation\<close>

lemma generator_special_in_class: "list_all class_special generator_special"
  by (simp add: generator_special_def class_special_def special_class_chars_def str_def)

lemma evaluate_all_classes:
  assumes lo: "re_search class_lower pw" and up: "re_search class_upper pw"
    and di: "re_search class_digit pw" and sp: "re_search class_special pw"
    and asc: "is_ascii pw" and len: "8 \<le> length pw"
  shows "if 157 \<le> length pw
         then check_password_strength L pw = Inl OverflowError
         else \<exists>r. check_password_strength L pw = Inr r \<and> strength r = ''Strong'' \<and> 5 \<le> score r"
proof -
  have ne: "pw \<noteq> []" using len by auto
  have nc: "str_lower L pw \<notin> common_passwords"
    using asc sp by (rule not_common_if_special)
  have cs: "charset_size pw = 94"
    using lo up di sp by (simp add: charset_size_sum)
  have sc: "5 \<le> fst (score_password pw)"
    using lo up di sp len by (simp add: score_password_value)
  have ov: "(2::nat) ^ 1025 \<le> 94 ^ length pw \<longleftrightarrow> 157 \<le> length pw"
  proof
    assume a: "(2::nat) ^ 1025 \<le> 94 ^ length pw"
    show "157 \<le> length pw"
    proof (rule ccontr)
      assume "\<not> 157 \<le> length pw"
      then have "length pw \<le> 156" by simp
      then have "(94::nat) ^ length pw \<le> 94 ^ 156"
        by (intro power_increasing) simp_all
      moreover have "(94::nat) ^ 156 < 2 ^ 1025" by simp
      ultimately show False using a by linarith
    qed
  next
    assume "157 \<le> length pw"
    then have "(94::nat) ^ 157 \<le> 94 ^ length pw"
      by (intro power_increasing) simp_all
    moreover have "(2::nat) ^ 1025 \<le> 94 ^ 157" by simp
    ultimately show "(2::nat) ^ 1025 \<le> 94 ^ length pw" by linarith
  qed
  show ?thesis
    using check_password_strength_scoring [OF ne nc, unfolded cs ov] sc
    by (auto simp: strength_of_score_def split: if_splits)
qed

lemma generated_password_classes:
  "\<exists>pw g'. generate_strong_password n ex g = Inr (pw, g')
      \<and> int (length pw) = max n 8
      \<and> re_search class_lower pw \<and> re_search class_upper pw
      \<and> (\<exists>c\<in>set pw. 48 \<le> c \<and> c \<le> 57)
      \<and> (\<exists>c\<in>set pw. c \<in> set generator_special)
      \<and> re_search class_special pw
      \<and> is_ascii pw
      \<and> (ex \<longrightarrow> set pw \<inter> set (str ''liIO01|'') = {})"
proof -
  obtain lo up di sp where cs: "character_sets ex = (lo, up, di, sp)"
    by (cases "character_sets ex") auto
  note cl = character_sets_classes [OF cs]
  obtain pw g' c1 c2 c3 c4 where r:
      "generate_strong_password n ex g = Inr (pw, g')"
      "length pw = nat (max n 8)"
      "c1 \<in> set lo" "c2 \<in> set up" "c3 \<in> set di" "c4 \<in> set sp"
      "{c1, c2, c3, c4} \<subseteq> set pw"
      "set pw \<subseteq> set (lo @ up @ di @ sp)"
    using generate_strong_password_result [OF cs, of n g] by (elim exE conjE) (rule that)
  have k1: "class_lower c1" using cl(2) r(3) by (simp add: list_all_iff)
  have k2: "class_upper c2" using cl(3) r(4) by (simp add: list_all_iff)
  have k3: "48 \<le> c3 \<and> c3 \<le> 57" using cl(4) r(5) by (simp add: list_all_iff)
  have k4: "c4 \<in> set generator_special" using cl(5) r(6) by (simp add: list_all_iff)
  then have k4': "class_special c4"
    using generator_special_in_class by (simp add: list_all_iff)
  have asc: "c < 128" if "c \<in> set pw" for c
  proof -
    from that r(8) have "c \<in> set lo \<or> c \<in> set up \<or> c \<in> set di \<or> c \<in> set sp" by auto
    then have "class_lower c \<or> class_upper c \<or> (48 \<le> c \<and> c \<le> 57) \<or> class_special c"
      using cl(2-5) generator_special_in_class by (auto simp: list_all_iff)
    then show ?thesis
      using class_special_not_alnum(4) [of c] by (auto simp: class_lower_def class_upper_def)
  qed
  have ex: "set pw \<inter> set (str ''liIO01|'') = {}" if ex
  proof -
    from that cs have "character_sets True = (lo, up, di, sp)" by simp
    then have "set (lo @ up @ di @ sp) \<inter> set (str ''liIO01|'') = {}"
      by (rule character_sets_exclude_similar)
    with r(8) show ?thesis by blast
  qed
  have "int (length pw) = max n 8" using r(2) by (simp add: max_def)
  moreover have "re_search class_lower pw" "re_search class_upper pw" "re_search class_special pw"
    using k1 k2 k4' r(7) by (auto simp: re_search_iff)
  moreover have "\<exists>c\<in>set pw. 48 \<le> c \<and> c \<le> 57" using k3 r(7) by auto
  moreover have "\<exists>c\<in>set pw. c \<in> set generator_special" using k4 r(7) by auto
  moreover have "is_ascii pw" using asc by (simp add: is_ascii_def list_all_iff)
  ultimately have "generate_strong_password n ex g = Inr (pw, g')
      \<and> int (length pw) = max n 8
      \<and> re_search class_lower pw \<and> re_search class_upper pw
      \<and> (\<exists>c\<in>set pw. 48 \<le> c \<and> c \<le> 57)
      \<and> (\<exists>c\<in>set pw. c \<in> set generator_special)
      \<and> re_search class_special pw
      \<and> is_ascii pw
      \<and> (ex \<longrightarrow> set pw \<inter> set (str ''liIO01|'') = {})"
    using r(1) ex by simp
  then show ?thesis by (intro exI)
qed

section \<open>The claims\<close>

text \<open>
  C1. For a password that is neither empty nor in the common-password set, the evaluation
  computes the score from 0 by adding 2 for a length of at least 12, 1 for a length from 8
  to 11 and nothing below 8 (where it records the too-short issue and recommendation), and
  then 1 for each of the four classes that is present, recording an issue and a
  recommendation for each class that is absent. The score is at most 6. The report carries
  this score and these lists; it is returned unless the crack-time estimate overflows, which
  happens exactly when the alphabet size to the power of the length reaches \<open>2 ^ 1025\<close>.
  The password \<open>MyPassword123!\<close> gets score 6 and strength Strong.
\<close>

theorem check_password_strength_score:
  "(password \<noteq> [] \<and> str_lower L password \<notin> common_passwords \<longrightarrow>
      score_password password =
        ((if 12 \<le> length password then 2 else if 8 \<le> length password then 1 else 0)
           + (if re_search class_upper password then 1 else 0)
           + (if re_search class_lower password then 1 else 0)
           + (if re_search class_digit password then 1 else 0)
           + (if re_search class_special password then 1 else 0),
         (if length password < 8 then [''Password is too short (minimum 8 characters)''] else [])
           @ (if re_search class_upper password then [] else [''No uppercase letters''])
           @ (if re_search class_lower password then [] else [''No lowercase letters''])
           @ (if re_search class_digit password then [] else [''No numbers''])
           @ (if re_search class_special password then [] else [''No special characters'']),
         (if length password < 8 then [''Increase password length to at least 8 characters'']
          else [])
           @ (if re_search class_upper password then [] else [''Add uppercase letters (A-Z)''])
           @ (if re_search class_lower password then [] else [''Add lowercase letters (a-z)''])
           @ (if re_search class_digit password then [] else [''Add numbers (0-9)''])
           @ (if re_search class_special password then []
              else [''Add special characters (!@#$%^&*...)'']))
    \<and> fst (score_password password) \<le> 6
    \<and> (if 2 ^ 1025 \<le> charset_size password ^ length password
        then check_password_strength L password = Inl OverflowError
        else \<exists>r. check_password_strength L password = Inr r
               \<and> score r = fst (score_password password)
               \<and> issues r = fst (snd (score_password password))
               \<and> recommendations r = Some (snd (snd (score_password password)))))
   \<and> (\<exists>r. check_password_strength L (str ''MyPassword123!'') = Inr r
          \<and> score r = 6 \<and> strength r = ''Strong'')"
proof (intro conjI impI)
  assume h: "password \<noteq> [] \<and> str_lower L password \<notin> common_passwords"
  show "if 2 ^ 1025 \<le> charset_size password ^ length password
        then check_password_strength L password = Inl OverflowError
        else \<exists>r. check_password_strength L password = Inr r
               \<and> score r = fst (score_password password)
               \<and> issues r = fst (snd (score_password password))
               \<and> recommendations r = Some (snd (snd (score_password password)))"
    using check_password_strength_scoring [of password L] h
    by (auto split: if_splits)
next
  let ?p = "str ''MyPassword123!''"
  have cs: "charset_size ?p = 94" and len: "length ?p = 14"
    by (simp_all add: charset_size_sum class_defs)
  have sp: "score_password ?p = (6, [], [])"
    by (simp add: score_password_value class_defs)
  have "is_ascii ?p" and "re_search class_special ?p"
    by (simp_all add: is_ascii_def class_defs)
  then have nc: "str_lower L ?p \<notin> common_passwords"
    by (rule not_common_if_special)
  have ne: "?p \<noteq> []" by (simp add: str_def)
  have "\<not> (2::nat) ^ 1025 \<le> charset_size ?p ^ length ?p"
    unfolding cs len by simp
  then show "\<exists>r. check_password_strength L ?p = Inr r \<and> score r = 6 \<and> strength r = ''Strong''"
    using check_password_strength_scoring [OF ne nc] sp
    by (auto simp: strength_of_score_def)
qed (simp_all add: score_password_value)

text \<open>C1 at the password \<open>MyPassword\<close>: score 3, with the two issues of the absent classes.\<close>

theorem check_password_strength_score_witness:
  "str ''MyPassword'' \<noteq> [] \<and> str_lower id (str ''MyPassword'') \<notin> common_passwords
   \<and> score_password (str ''MyPassword'') =
       (3, [''No numbers'', ''No special characters''],
        [''Add numbers (0-9)'', ''Add special characters (!@#$%^&*...)''])
   \<and> (\<exists>r. check_password_strength id (str ''MyPassword'') = Inr r \<and> score r = 3
          \<and> issues r = [''No numbers'', ''No special characters''])"
proof -
  let ?p = "str ''MyPassword''"
  have ne: "?p \<noteq> []" by (simp add: str_def)
  have nc: "str_lower id ?p \<notin> common_passwords" by (simp add: lower_defs)
  have sp: "score_password ?p =
       (3, [''No numbers'', ''No special characters''],
        [''Add numbers (0-9)'', ''Add special characters (!@#$%^&*...)''])"
    by (simp add: score_password_value class_defs)
  have cs: "charset_size ?p = 52" and len: "length ?p = 10"
    by (simp_all add: charset_size_sum class_defs)
  have no: "\<not> (2::nat) ^ 1025 \<le> charset_size ?p ^ length ?p"
    unfolding cs len by simp
  from check_password_strength_score [of ?p id] ne nc
  have "if 2 ^ 1025 \<le> charset_size ?p ^ length ?p
        then check_password_strength id ?p = Inl OverflowError
        else \<exists>r. check_password_strength id ?p = Inr r
               \<and> score r = fst (score_password ?p)
               \<and> issues r = fst (snd (score_password ?p))
               \<and> recommendations r = Some (snd (snd (score_password ?p)))"
    by blast
  with no have "\<exists>r. check_password_strength id ?p = Inr r
               \<and> score r = fst (score_password ?p)
               \<and> issues r = fst (snd (score_password ?p))"
    by auto
  then show ?thesis using ne nc sp by simp
qed

text \<open>
  C2. When a password takes the numeric scoring path (it is not empty and not in the
  common-password set) and a report is returned, the strength is determined by the score:
  Weak up to 2, Moderate for 3 and 4, Strong from 5 on, and never Very Weak. A report with
  strength Very Weak comes from a short-circuit branch only: the password is empty or in the
  common-password set.
\<close>

theorem strength_determined_by_score:
  "(password \<noteq> [] \<and> str_lower L password \<notin> common_passwords
      \<and> check_password_strength L password = Inr r \<longrightarrow>
        strength r = (if score r \<le> 2 then ''Weak''
                      else if score r \<le> 4 then ''Moderate'' else ''Strong'')
      \<and> strength r \<noteq> ''Very Weak'')
   \<and> (check_password_strength L password = Inr r \<and> strength r = ''Very Weak'' \<longrightarrow>
        password = [] \<or> str_lower L password \<in> common_passwords)"
proof -
  have main: "strength r = (if score r \<le> 2 then ''Weak''
                      else if score r \<le> 4 then ''Moderate'' else ''Strong'')
      \<and> strength r \<noteq> ''Very Weak''"
    if "password \<noteq> []" "str_lower L password \<notin> common_passwords"
       "check_password_strength L password = Inr r"
  proof -
    have "strength r = strength_of_score (score r)"
      using check_password_strength_scoring [OF that(1,2)] that(3)
      by (auto split: if_splits)
    then show ?thesis by (simp add: strength_of_score_def)
  qed
  then show ?thesis by blast
qed

text \<open>C2 at \<open>MyPassword\<close> (score 3, Moderate) and at the common password \<open>password\<close> (Very Weak).\<close>

theorem strength_determined_by_score_witness:
  "str ''MyPassword'' \<noteq> [] \<and> str_lower id (str ''MyPassword'') \<notin> common_passwords
   \<and> (\<exists>r. check_password_strength id (str ''MyPassword'') = Inr r
          \<and> score r = 3 \<and> strength r = ''Moderate'')
   \<and> (\<exists>r. check_password_strength id (str ''password'') = Inr r
          \<and> strength r = ''Very Weak''
          \<and> str_lower id (str ''password'') \<in> common_passwords)"
proof -
  let ?p = "str ''MyPassword''"
  have ne: "?p \<noteq> []" by (simp add: str_def)
  have nc: "str_lower id ?p \<notin> common_passwords" by (simp add: lower_defs)
  have sp: "fst (score_password ?p) = 3"
    by (simp add: score_password_value class_defs)
  have cs: "charset_size ?p = 52" and len: "length ?p = 10"
    by (simp_all add: charset_size_sum class_defs)
  have "\<not> (2::nat) ^ 1025 \<le> charset_size ?p ^ length ?p"
    unfolding cs len by simp
  then obtain r where r: "check_password_strength id ?p = Inr r" "score r = 3"
    using check_password_strength_scoring [OF ne nc] sp by auto
  have "strength r = ''Moderate''"
    using strength_determined_by_score [of ?p id r] ne nc r by simp
  with r have a: "\<exists>r. check_password_strength id ?p = Inr r \<and> score r = 3
      \<and> strength r = ''Moderate''"
    by blast
  let ?q = "str ''password''"
  have c: "str_lower id ?q \<in> common_passwords" by (simp add: lower_defs)
  obtain r' where r': "check_password_strength id ?q = Inr r'" "strength r' = ''Very Weak''"
    using check_password_strength_common [OF c] by simp
  have "?q = [] \<or> str_lower id ?q \<in> common_passwords"
    using strength_determined_by_score [of ?q id r'] r' by blast
  with r' c have b: "\<exists>r. check_password_strength id ?q = Inr r \<and> strength r = ''Very Weak''
      \<and> str_lower id ?q \<in> common_passwords"
    by blast
  from ne nc a b show ?thesis by blast
qed

text \<open>
  C3. The entropy of a password is its length times the binary logarithm of the alphabet
  size, and 0 when the alphabet size is 0. The alphabet size adds 26 when a lower-case letter
  \<open>a\<close>..\<open>z\<close> is present, 26 when an upper-case letter \<open>A\<close>..\<open>Z\<close> is present, 10 when a digit is
  present and 32 when a character of the punctuation class is present. The empty password has
  entropy 0 and \<open>aaaaaaaa\<close> has entropy \<open>8 * log 2 26\<close>.
\<close>

theorem calculate_entropy_formula:
  "calculate_entropy password =
     Inr (if charset_size password = 0 then 0
          else real (length password) * log 2 (real (charset_size password)))
   \<and> charset_size password =
       (if \<exists>c\<in>set password. 97 \<le> c \<and> c \<le> 122 then 26 else 0)
     + (if \<exists>c\<in>set password. 65 \<le> c \<and> c \<le> 90 then 26 else 0)
     + (if \<exists>c\<in>set password. class_digit c then 10 else 0)
     + (if \<exists>c\<in>set password. c \<in> set special_class_chars then 32 else 0)
   \<and> calculate_entropy [] = Inr 0
   \<and> calculate_entropy (str ''aaaaaaaa'') = Inr (8 * log 2 26)"
proof (intro conjI)
  show "calculate_entropy password =
     Inr (if charset_size password = 0 then 0
          else real (length password) * log 2 (real (charset_size password)))"
    by (rule calculate_entropy_value)
  show "charset_size password =
       (if \<exists>c\<in>set password. 97 \<le> c \<and> c \<le> 122 then 26 else 0)
     + (if \<exists>c\<in>set password. 65 \<le> c \<and> c \<le> 90 then 26 else 0)
     + (if \<exists>c\<in>set password. class_digit c then 10 else 0)
     + (if \<exists>c\<in>set password. c \<in> set special_class_chars then 32 else 0)"
    unfolding charset_size_sum re_search_iff class_lower_def class_upper_def class_special_def
    by (rule refl)
  show "calculate_entropy [] = Inr 0"
    by (simp add: calculate_entropy_def)
  have "charset_size (str ''aaaaaaaa'') = 26" "length (str ''aaaaaaaa'') = 8"
    by (simp_all add: charset_size_sum class_defs)
  then show "calculate_entropy (str ''aaaaaaaa'') = Inr (8 * log 2 26)"
    by (simp add: calculate_entropy_value)
qed

text \<open>
  C4. The crack-time estimate is Instant for an entropy of at most 0. Above 0 it takes
  \<open>2 powr (entropy - 1) / 10 ^ 9\<close> seconds and picks the first bracket whose strict upper
  bound (1, 60, 3600, 86400, 31536000) holds, years otherwise; but from entropy 1025 on
  the power overflows and the function raises \<open>OverflowError\<close> instead of answering in years.
  The entropy 0 gives Instant; the entropy 2000 raises.
\<close>

theorem estimate_crack_time_overflow:
  "estimate_crack_time e =
     (if e \<le> 0 then Inr Instant
      else if 1025 \<le> e then Inl OverflowError
      else if 2 powr (e - 1) / 1000000000 < 1 then Inr Less_than_1_second
      else if 2 powr (e - 1) / 1000000000 < 60 then Inr (Seconds (2 powr (e - 1) / 1000000000))
      else if 2 powr (e - 1) / 1000000000 < 3600
        then Inr (Minutes (2 powr (e - 1) / 1000000000 / 60))
      else if 2 powr (e - 1) / 1000000000 < 86400
        then Inr (Hours (2 powr (e - 1) / 1000000000 / 3600))
      else if 2 powr (e - 1) / 1000000000 < 31536000
        then Inr (Days (2 powr (e - 1) / 1000000000 / 86400))
      else Inr (Years (2 powr (e - 1) / 1000000000 / 31536000)))
   \<and> estimate_crack_time 0 = Inr Instant
   \<and> estimate_crack_time 2000 = Inl OverflowError"
  by (simp add: estimate_crack_time_def pow2_float_def Let_def)

text \<open>
  C5. A password whose lower-casing is in the common-password set gets the report with
  strength Very Weak, score 0, one issue and one recommendation; entropy, crack time and
  checks are absent from it.
\<close>

theorem common_password_very_weak:
  "str_lower L password \<in> common_passwords \<Longrightarrow>
   check_password_strength L password =
     Inr \<lparr>strength = ''Very Weak'', score = 0, entropy = None, crack_time = None,
          issues = [''Password is in the top 1000 common passwords list''],
          recommendations = Some [''Choose a unique password that's not commonly used''],
          checks = None\<rparr>"
  by (rule check_password_strength_common)

text \<open>C5 at \<open>PassWord\<close> and at \<open>123456\<close>.\<close>

theorem common_password_very_weak_witness:
  "str_lower id (str ''PassWord'') \<in> common_passwords
   \<and> check_password_strength id (str ''PassWord'') =
     Inr \<lparr>strength = ''Very Weak'', score = 0, entropy = None, crack_time = None,
          issues = [''Password is in the top 1000 common passwords list''],
          recommendations = Some [''Choose a unique password that's not commonly used''],
          checks = None\<rparr>
   \<and> str_lower id (str ''123456'') \<in> common_passwords
   \<and> check_password_strength id (str ''123456'') =
     Inr \<lparr>strength = ''Very Weak'', score = 0, entropy = None, crack_time = None,
          issues = [''Password is in the top 1000 common passwords list''],
          recommendations = Some [''Choose a unique password that's not commonly used''],
          checks = None\<rparr>"
proof -
  have a: "str_lower id (str ''PassWord'') \<in> common_passwords" by (simp add: lower_defs)
  have b: "str_lower id (str ''123456'') \<in> common_passwords" by (simp add: lower_defs)
  show ?thesis
    using a b common_password_very_weak [OF a] common_password_very_weak [OF b] by simp
qed

text \<open>
  C6 as stated fails: \<open>abc123\<close> is an entry of the common-password set, so its report is the
  short-circuit one with score 0 and strength Very Weak, not score 2 and Weak.
\<close>

theorem abc123_is_common_counterexample:
  "check_password_strength id (str ''abc123'') =
     Inr \<lparr>strength = ''Very Weak'', score = 0, entropy = None, crack_time = None,
          issues = [''Password is in the top 1000 common passwords list''],
          recommendations = Some [''Choose a unique password that's not commonly used''],
          checks = None\<rparr>"
proof -
  have "str_lower id (str ''abc123'') \<in> common_passwords" by (simp add: lower_defs)
  then show ?thesis by (rule check_password_strength_common)
qed

text \<open>
  C6, amended. The evaluation of \<open>abc123\<close> returns score 0 and strength Very Weak, because
  \<open>abc123\<close> is in the common-password set. Its length is 6, the lower-case and digit classes
  are present and the upper-case and special classes are absent, and the scoring rules alone
  give it 2 with the too-short issue.
\<close>

theorem abc123_very_weak:
  "str ''abc123'' \<in> load_common_passwords
   \<and> (\<exists>r. check_password_strength L (str ''abc123'') = Inr r
          \<and> score r = 0 \<and> strength r = ''Very Weak'')
   \<and> length (str ''abc123'') = 6
   \<and> re_search class_lower (str ''abc123'') \<and> re_search class_digit (str ''abc123'')
   \<and> \<not> re_search class_upper (str ''abc123'') \<and> \<not> re_search class_special (str ''abc123'')
   \<and> score_password (str ''abc123'') =
       (2, [''Password is too short (minimum 8 characters)'', ''No uppercase letters'',
            ''No special characters''],
           [''Increase password length to at least 8 characters'',
            ''Add uppercase letters (A-Z)'', ''Add special characters (!@#$%^&*...)''])"
proof -
  have c: "str_lower L (str ''abc123'') \<in> common_passwords" by (simp add: lower_defs)
  have "str ''abc123'' \<in> load_common_passwords"
    by (simp add: load_common_passwords_def str_def)
  moreover have "\<exists>r. check_password_strength L (str ''abc123'') = Inr r
          \<and> score r = 0 \<and> strength r = ''Very Weak''"
    using check_password_strength_common [OF c] by simp
  moreover have "score_password (str ''abc123'') =
       (2, [''Password is too short (minimum 8 characters)'', ''No uppercase letters'',
            ''No special characters''],
           [''Increase password length to at least 8 characters'',
            ''Add uppercase letters (A-Z)'', ''Add special characters (!@#$%^&*...)''])"
    by (simp add: score_password_value class_defs)
  ultimately show ?thesis by (simp add: class_defs)
qed

text \<open>
  C7. For every requested length and every outcome of the random source, generation with
  similar characters excluded returns a password (no error) whose length is the maximum of
  the request and 8, which holds a lower-case letter, an upper-case letter, a digit and a
  character of the generator's special set, and none of the characters \<open>l i I O 0 1 |\<close>.
\<close>

theorem generate_strong_password_exclude_similar:
  "\<exists>pw g'. generate_strong_password n True g = Inr (pw, g')
      \<and> int (length pw) = max n 8
      \<and> (\<exists>c\<in>set pw. class_lower c)
      \<and> (\<exists>c\<in>set pw. class_upper c)
      \<and> (\<exists>c\<in>set pw. 48 \<le> c \<and> c \<le> 57)
      \<and> (\<exists>c\<in>set pw. c \<in> set generator_special)
      \<and> set pw \<inter> set (str ''liIO01|'') = {}"
proof -
  obtain pw g' where "generate_strong_password n True g = Inr (pw, g')"
      "int (length pw) = max n 8"
      "re_search class_lower pw" "re_search class_upper pw"
      "\<exists>c\<in>set pw. 48 \<le> c \<and> c \<le> 57"
      "\<exists>c\<in>set pw. c \<in> set generator_special"
      "set pw \<inter> set (str ''liIO01|'') = {}"
    using generated_password_classes [of n True g] by (elim exE conjE) (rule that, simp_all)
  then show ?thesis
    unfolding re_search_iff by (intro exI conjI)
qed

text \<open>
  C8. The evaluation returns a report for every password except where the crack-time
  estimate overflows: then it raises \<open>OverflowError\<close>, as it does on the 160 characters
  \<open>Aa1!\<close> repeated 40 times. The upper-case and lower-case flags look at the ASCII ranges
  only. The digit flag does not: the Arabic-Indic digit three (code point 1635) is in the
  digit class, gives the one-character password an alphabet of 10, and sets the flag
  \<open>numbers\<close> of its report.
\<close>

theorem check_password_strength_raises:
  "((\<exists>r. check_password_strength L password = Inr r)
      \<or> (check_password_strength L password = Inl OverflowError
          \<and> 2 ^ 1025 \<le> charset_size password ^ length password))
   \<and> check_password_strength L (str ''Aa1!Aa1!Aa1!Aa1!Aa1!Aa1!Aa1!Aa1!Aa1!Aa1!Aa1!Aa1!Aa1!Aa1!Aa1!Aa1!Aa1!Aa1!Aa1!Aa1!Aa1!Aa1!Aa1!Aa1!Aa1!Aa1!Aa1!Aa1!Aa1!Aa1!Aa1!Aa1!Aa1!Aa1!Aa1!Aa1!Aa1!Aa1!Aa1!Aa1!'') = Inl OverflowError
   \<and> (re_search class_upper password \<longleftrightarrow> (\<exists>c\<in>set password. 65 \<le> c \<and> c \<le> 90))
   \<and> (re_search class_lower password \<longleftrightarrow> (\<exists>c\<in>set password. 97 \<le> c \<and> c \<le> 122))
   \<and> re_search class_digit [1635]
   \<and> calculate_entropy [1635] = Inr (log 2 10)
   \<and> (\<exists>r. check_password_strength id [1635] = Inr r \<and> score r = 1
        \<and> checks r = Some [(''length'', False), (''uppercase'', False),
             (''lowercase'', False), (''numbers'', True), (''special'', False)])"
proof (intro conjI)
  show "(\<exists>r. check_password_strength L password = Inr r)
      \<or> (check_password_strength L password = Inl OverflowError
          \<and> 2 ^ 1025 \<le> charset_size password ^ length password)"
  proof (cases "password = [] \<or> str_lower L password \<in> common_passwords")
    case True
    then show ?thesis by (auto simp: check_password_strength_def)
  next
    case False
    then show ?thesis
      using check_password_strength_scoring [of password L] by (auto split: if_splits)
  qed
next
  let ?p = "str ''Aa1!Aa1!Aa1!Aa1!Aa1!Aa1!Aa1!Aa1!Aa1!Aa1!Aa1!Aa1!Aa1!Aa1!Aa1!Aa1!Aa1!Aa1!Aa1!Aa1!Aa1!Aa1!Aa1!Aa1!Aa1!Aa1!Aa1!Aa1!Aa1!Aa1!Aa1!Aa1!Aa1!Aa1!Aa1!Aa1!Aa1!Aa1!Aa1!Aa1!''"
  have lo: "re_search class_lower ?p" and up: "re_search class_upper ?p"
    and di: "re_search class_digit ?p" and sp: "re_search class_special ?p"
    by (simp_all add: class_defs)
  have asc: "is_ascii ?p" by (simp add: is_ascii_def str_def)
  have len: "length ?p = 160" by (simp add: str_def)
  show "check_password_strength L ?p = Inl OverflowError"
    using evaluate_all_classes [OF lo up di sp asc, of L] len by simp
next
  let ?d = "[1635::nat]"
  have ne: "?d \<noteq> []" by simp
  have nc: "str_lower id ?d \<notin> common_passwords" by (simp add: lower_defs)
  have cs: "charset_size ?d = 10" by (simp add: charset_size_sum class_defs)
  have sc: "fst (score_password ?d) = 1" by (simp add: score_password_value class_defs)
  have no: "\<not> (2::nat) ^ 1025 \<le> charset_size ?d ^ length ?d" unfolding cs by simp
  show "\<exists>r. check_password_strength id ?d = Inr r \<and> score r = 1
        \<and> checks r = Some [(''length'', False), (''uppercase'', False),
             (''lowercase'', False), (''numbers'', True), (''special'', False)]"
    using check_password_strength_scoring [OF ne nc] no sc
    by (auto simp: class_defs)
next
  show "calculate_entropy [1635] = Inr (log 2 10)"
    by (simp add: calculate_entropy_value charset_size_sum class_defs)
qed (simp_all add: re_search_iff class_upper_def class_lower_def class_digit_def unicode_Nd_def)

text \<open>
  C9. The entropy is never negative, and of two passwords with the same classes present the
  one that is not shorter has an entropy that is not smaller.
\<close>

theorem calculate_entropy_nonneg_mono:
  "(\<exists>e. calculate_entropy p = Inr e \<and> 0 \<le> e)
   \<and> (re_search class_lower p = re_search class_lower q
      \<and> re_search class_upper p = re_search class_upper q
      \<and> re_search class_digit p = re_search class_digit q
      \<and> re_search class_special p = re_search class_special q
      \<and> length p \<le> length q \<longrightarrow>
      (\<exists>e1 e2. calculate_entropy p = Inr e1 \<and> calculate_entropy q = Inr e2 \<and> e1 \<le> e2))"
proof (intro conjI impI)
  have "0 \<le> log 2 (real (charset_size p))" if "charset_size p \<noteq> 0"
    using that by simp
  then show "\<exists>e. calculate_entropy p = Inr e \<and> 0 \<le> e"
    by (simp add: calculate_entropy_value)
next
  assume h: "re_search class_lower p = re_search class_lower q
      \<and> re_search class_upper p = re_search class_upper q
      \<and> re_search class_digit p = re_search class_digit q
      \<and> re_search class_special p = re_search class_special q
      \<and> length p \<le> length q"
  then have cs: "charset_size p = charset_size q" by (simp add: charset_size_sum)
  have "real (length p) * log 2 (real (charset_size q))
        \<le> real (length q) * log 2 (real (charset_size q))" if "charset_size q \<noteq> 0"
  proof -
    have "0 \<le> log 2 (real (charset_size q))" using that by simp
    moreover have "real (length p) \<le> real (length q)" using h by simp
    ultimately show ?thesis by (rule mult_right_mono [rotated])
  qed
  then show "\<exists>e1 e2. calculate_entropy p = Inr e1 \<and> calculate_entropy q = Inr e2 \<and> e1 \<le> e2"
    by (simp add: calculate_entropy_value cs)
qed

text \<open>C9 at \<open>abc1\<close> and \<open>z9z9z9\<close>, both with exactly the lower-case and digit classes.\<close>

theorem calculate_entropy_nonneg_mono_witness:
  "re_search class_lower (str ''abc1'') = re_search class_lower (str ''z9z9z9'')
   \<and> re_search class_upper (str ''abc1'') = re_search class_upper (str ''z9z9z9'')
   \<and> re_search class_digit (str ''abc1'') = re_search class_digit (str ''z9z9z9'')
   \<and> re_search class_special (str ''abc1'') = re_search class_special (str ''z9z9z9'')
   \<and> length (str ''abc1'') \<le> length (str ''z9z9z9'')
   \<and> (\<exists>e1 e2. calculate_entropy (str ''abc1'') = Inr e1
         \<and> calculate_entropy (str ''z9z9z9'') = Inr e2 \<and> e1 \<le> e2)"
proof -
  have h: "re_search class_lower (str ''abc1'') = re_search class_lower (str ''z9z9z9'')
   \<and> re_search class_upper (str ''abc1'') = re_search class_upper (str ''z9z9z9'')
   \<and> re_search class_digit (str ''abc1'') = re_search class_digit (str ''z9z9z9'')
   \<and> re_search class_special (str ''abc1'') = re_search class_special (str ''z9z9z9'')
   \<and> length (str ''abc1'') \<le> length (str ''z9z9z9'')"
    by (simp add: class_defs)
  with calculate_entropy_nonneg_mono [of "str ''abc1''" "str ''z9z9z9''"]
  show ?thesis by blast
qed

text \<open>
  C10. For every requested length, either setting of the exclusion flag and every outcome
  of the random source, generation returns a password. When the requested length is at most
  156 its evaluation returns strength Strong with a score of at least 5; from 157 on the
  evaluation raises \<open>OverflowError\<close>.
\<close>

theorem generated_password_evaluation:
  "\<exists>pw g'. generate_strong_password n ex g = Inr (pw, g')
      \<and> (if n \<le> 156
         then \<exists>r. check_password_strength L pw = Inr r \<and> strength r = ''Strong'' \<and> 5 \<le> score r
         else check_password_strength L pw = Inl OverflowError)"
proof -
  obtain pw g' where r: "generate_strong_password n ex g = Inr (pw, g')"
      "int (length pw) = max n 8"
      "re_search class_lower pw" "re_search class_upper pw"
      "\<exists>c\<in>set pw. 48 \<le> c \<and> c \<le> 57"
      "re_search class_special pw" "is_ascii pw"
    using generated_password_classes [of n ex g] by (elim exE conjE) (rule that)
  have di: "re_search class_digit pw"
    using r(5) class_digit_ascii by (auto simp: re_search_iff)
  have len: "8 \<le> length pw" using r(2) by linarith
  have "157 \<le> length pw \<longleftrightarrow> \<not> n \<le> 156" using r(2) by linarith
  then have "if n \<le> 156
         then \<exists>r. check_password_strength L pw = Inr r \<and> strength r = ''Strong'' \<and> 5 \<le> score r
         else check_password_strength L pw = Inl OverflowError"
    using evaluate_all_classes [OF r(3) r(4) di r(6) r(7) len, of L]
    by (simp split: if_splits)
  with r(1) show ?thesis by (intro exI conjI)
qed

text \<open>C10 at the requested lengths 16 and 157, for one outcome of the random source.\<close>

theorem generated_password_evaluation_witness:
  "(\<exists>pw g'. generate_strong_password 16 True (\<lambda>k. 7 * k + 3) = Inr (pw, g')
      \<and> (\<exists>r. check_password_strength id pw = Inr r \<and> strength r = ''Strong'' \<and> 5 \<le> score r))
   \<and> (\<exists>pw g'. generate_strong_password 157 True (\<lambda>k. 7 * k + 3) = Inr (pw, g')
      \<and> check_password_strength id pw = Inl OverflowError)"
  using generated_password_evaluation [of 16 True "\<lambda>k. 7 * k + 3" id]
    generated_password_evaluation [of 157 True "\<lambda>k. 7 * k + 3" id]
  by simp

end
